theory Spec2Isabelle
  imports
    Main
    "HOL-Library.Word"
    "HOL-Library.Char_ord"
    "HOL-Library.List_Lexorder"
    "HOL-Library.Multiset"
begin

section \<open>The Kea configuration generator\<close>

text \<open>
  The repository builds an in-memory description of a Kea DHCPv4 configuration
  (\<^verbatim>\<open>KeaGenerator.h\<close>) and renders it as a JSON document (\<^verbatim>\<open>to_json\<close> overloads).
  It comes in two copies: a standalone program that holds everything in one file and
  ends in \<^verbatim>\<open>main\<close>, and the library made of the header and its implementation file.
  Where the two copies differ in their text, both are embedded, the standalone one
  under the suffix \<open>_standalone\<close>.

  \<^verbatim>\<open>uint64_t\<close> is \<open>64 word\<close>, so that \<^verbatim>\<open>max_id++\<close> wraps as in C++.
  \<^verbatim>\<open>std::string\<close> is \<open>string\<close>; its \<^verbatim>\<open>operator<\<close> is the lexicographic order
  on the bytes, which is the order of \<open>char list\<close> with the orders of
  \<open>Char_ord\<close> and \<open>List_Lexorder\<close>.
\<close>

type_synonym u64 = "64 word"

subsection \<open>JSON values\<close>

text \<open>
  Modelled from the spec: the JSON library (\<^verbatim>\<open>nlohmann/json.hpp\<close>) is not part of the
  sources. A document is a tree of unsigned numbers, booleans, strings, arrays and
  objects with named fields. An object keeps its fields in a \<^verbatim>\<open>std::map\<close>, that is
  sorted by key and without duplicate keys, so two objects are equal exactly when they
  hold the same fields; the model keeps the list of fields sorted by key, which makes
  equality of documents the equality of HOL.
\<close>

datatype json =
    JNull
  | JBool bool
  | JUnsigned u64
  | JString string
  | JArray "json list"
  | JObject "(string \<times> json) list"

text \<open>\<^verbatim>\<open>j[key] = v\<close> on the fields of an object: overwrite the field or add it in key order.\<close>

fun object_assign :: "string \<Rightarrow> json \<Rightarrow> (string \<times> json) list \<Rightarrow> (string \<times> json) list" where
  "object_assign k v [] = [(k, v)]"
| "object_assign k v ((k', v') # kvs) =
     (if k < k' then (k, v) # (k', v') # kvs
      else if k' < k then (k', v') # object_assign k v kvs
      else (k, v) # kvs)"

text \<open>
  \<^verbatim>\<open>nlohmann::json{ {k1, v1}, {k2, v2}, ... }\<close>: an object built from a brace list of
  key/value pairs, each pair placed unless its key is already there.
\<close>

fun object_emplace :: "string \<Rightarrow> json \<Rightarrow> (string \<times> json) list \<Rightarrow> (string \<times> json) list" where
  "object_emplace k v [] = [(k, v)]"
| "object_emplace k v ((k', v') # kvs) =
     (if k < k' then (k, v) # (k', v') # kvs
      else if k' < k then (k', v') # object_emplace k v kvs
      else (k', v') # kvs)"

definition object_init :: "(string \<times> json) list \<Rightarrow> (string \<times> json) list" where
  "object_init kvs = foldl (\<lambda>m (k, v). object_emplace k v m) [] kvs"

text \<open>The names of the top-level fields of a document, in the order the object holds them.\<close>

fun json_keys :: "json \<Rightarrow> string list" where
  "json_keys (JObject kvs) = map fst kvs"
| "json_keys _ = []"

subsection \<open>InterfacesConfig\<close>

record InterfacesConfig =
  interfaces :: "string list"

definition InterfacesConfig_empty :: "InterfacesConfig \<Rightarrow> bool" where
  "InterfacesConfig_empty i = (interfaces i = [])"

definition to_json_InterfacesConfig :: "InterfacesConfig \<Rightarrow> json" where
  "to_json_InterfacesConfig i =
     JObject (object_init [(''interfaces'', JArray (map JString (interfaces i)))])"

subsection \<open>LeaseDatabase\<close>

record LeaseDatabase =
  type :: string
  persist :: bool
  name :: string

text \<open>The constructor with three arguments and the default constructor.\<close>

definition LeaseDatabase_ctor :: "string \<Rightarrow> bool \<Rightarrow> string \<Rightarrow> LeaseDatabase" where
  "LeaseDatabase_ctor t p n = \<lparr>type = t, persist = p, name = n\<rparr>"

definition LeaseDatabase_default :: LeaseDatabase where
  "LeaseDatabase_default = \<lparr>type = '''', persist = False, name = ''''\<rparr>"

text \<open>Header: \<^verbatim>\<open>return type.empty () || name.empty ();\<close>\<close>

definition LeaseDatabase_empty :: "LeaseDatabase \<Rightarrow> bool" where
  "LeaseDatabase_empty l = (type l = [] \<or> name l = [])"

text \<open>Standalone program: \<^verbatim>\<open>if (type == "" || name == "") return true; return false;\<close>\<close>

definition LeaseDatabase_empty_standalone :: "LeaseDatabase \<Rightarrow> bool" where
  "LeaseDatabase_empty_standalone l = (if type l = '''' \<or> name l = '''' then True else False)"

text \<open>
  \<^verbatim>\<open>j["type"] = ...; j["persist"] = ...; j["name"] = ...;\<close> on the fresh (null) value
  that the library hands to \<^verbatim>\<open>to_json\<close>; the first assignment turns it into an object.
\<close>

definition to_json_LeaseDatabase :: "LeaseDatabase \<Rightarrow> json" where
  "to_json_LeaseDatabase l =
     (let j = object_assign ''type'' (JString (type l)) [];
          j = object_assign ''persist'' (JBool (persist l)) j;
          j = object_assign ''name'' (JString (name l)) j
      in JObject j)"

subsection \<open>Ordered sets\<close>

text \<open>
  \<^verbatim>\<open>std::set\<close> of the C++ standard library, with the comparison \<open>lt\<close> that the
  element type defines as \<^verbatim>\<open>operator<\<close>. A set is the list of its elements in the
  order of \<open>lt\<close>, which is the order in which the set is traversed and serialized.
  \<^verbatim>\<open>insert\<close> places the element in order, unless an equivalent element (neither
  is less than the other) is already in the set; then the set stays as it is.
\<close>

fun set_insert :: "('a \<Rightarrow> 'a \<Rightarrow> bool) \<Rightarrow> 'a \<Rightarrow> 'a list \<Rightarrow> 'a list" where
  "set_insert lt x [] = [x]"
| "set_insert lt x (y # ys) =
     (if lt x y then x # y # ys
      else if lt y x then y # set_insert lt x ys
      else y # ys)"

subsection \<open>Subnet4\<close>

text \<open>
  The fields \<^verbatim>\<open>range\<close> of \<^verbatim>\<open>Pool\<close> and \<^verbatim>\<open>id\<close> of \<^verbatim>\<open>Cfg\<close> carry the name of their
  struct as a suffix, since \<open>range\<close> and \<open>id\<close> are constants of HOL.
\<close>

record Subnet4_Pool =
  range_Pool :: string

definition Pool_less :: "Subnet4_Pool \<Rightarrow> Subnet4_Pool \<Rightarrow> bool" where
  "Pool_less p rhs = (range_Pool p < range_Pool rhs)"

record Subnet4_Cfg =
  id_Cfg :: u64
  subnet :: string
  pools :: "Subnet4_Pool list"

text \<open>
  \<^verbatim>\<open>cfgs\<close> is a \<^verbatim>\<open>std::unordered_map<uint64_t, Cfg>\<close>: a finite map.
\<close>

record Subnet4 =
  max_id :: u64
  cfgs :: "u64 \<rightharpoonup> Subnet4_Cfg"

definition Subnet4_ctor :: Subnet4 where
  "Subnet4_ctor = \<lparr>max_id = 1, cfgs = Map.empty\<rparr>"

text \<open>
  Header:
  \<^verbatim>\<open>uint64_t current_id = max_id++;
  cfgs[current_id] = Cfg{ current_id, std::move (subnet), {} };
  return current_id;\<close>
  The functions that change an object return the result and the new object.
\<close>

definition add_config :: "Subnet4 \<Rightarrow> string \<Rightarrow> u64 \<times> Subnet4" where
  "add_config s sn =
     (let current_id = max_id s;
          s = s\<lparr>max_id := max_id s + 1\<rparr>;
          s = s\<lparr>cfgs := (cfgs s)(current_id \<mapsto> \<lparr>id_Cfg = current_id, subnet = sn, pools = []\<rparr>)\<rparr>
      in (current_id, s))"

text \<open>
  Standalone program:
  \<^verbatim>\<open>cfgs[max_id] = Cfg{ max_id, std::move (subnet), {} };
  return max_id++;\<close>
\<close>

definition add_config_standalone :: "Subnet4 \<Rightarrow> string \<Rightarrow> u64 \<times> Subnet4" where
  "add_config_standalone s sn =
     (let s = s\<lparr>cfgs := (cfgs s)(max_id s \<mapsto> \<lparr>id_Cfg = max_id s, subnet = sn, pools = []\<rparr>)\<rparr>
      in (max_id s, s\<lparr>max_id := max_id s + 1\<rparr>))"

text \<open>
  Header: look the identifier up with \<^verbatim>\<open>find\<close>; when it is missing return
  \<^verbatim>\<open>false\<close>; otherwise insert the pool \<^verbatim>\<open>low + " - " + high\<close> into the entry found.
\<close>

definition add_pool_for_cfg :: "Subnet4 \<Rightarrow> u64 \<Rightarrow> string \<Rightarrow> string \<Rightarrow> bool \<times> Subnet4" where
  "add_pool_for_cfg s cfg_id low high =
     (case cfgs s cfg_id of
        None \<Rightarrow> (False, s)
      | Some c \<Rightarrow>
          (let pool_range = low @ '' - '' @ high;
               c = c\<lparr>pools := set_insert Pool_less \<lparr>range_Pool = pool_range\<rparr> (pools c)\<rparr>
           in (True, s\<lparr>cfgs := (cfgs s)(cfg_id \<mapsto> c)\<rparr>)))"

text \<open>
  Standalone program: the same test with \<^verbatim>\<open>find\<close>, then
  \<^verbatim>\<open>cfgs[cfg_id].pools.insert (...)\<close>. \<^verbatim>\<open>operator[]\<close> would create a
  value-initialised entry for a missing key.
\<close>

definition Cfg_value_init :: Subnet4_Cfg where
  "Cfg_value_init = \<lparr>id_Cfg = 0, subnet = [], pools = []\<rparr>"

definition add_pool_for_cfg_standalone ::
  "Subnet4 \<Rightarrow> u64 \<Rightarrow> string \<Rightarrow> string \<Rightarrow> bool \<times> Subnet4" where
  "add_pool_for_cfg_standalone s cfg_id low high =
     (if cfgs s cfg_id = None then (False, s)
      else
        (let pool = low @ '' - '' @ high;
             c = (case cfgs s cfg_id of Some c \<Rightarrow> c | None \<Rightarrow> Cfg_value_init);
             c = c\<lparr>pools := set_insert Pool_less \<lparr>range_Pool = pool\<rparr> (pools c)\<rparr>
         in (True, s\<lparr>cfgs := (cfgs s)(cfg_id \<mapsto> c)\<rparr>)))"

definition Subnet4_empty :: "Subnet4 \<Rightarrow> bool" where
  "Subnet4_empty s = (dom (cfgs s) = {})"

definition to_json_Pool :: "Subnet4_Pool \<Rightarrow> json" where
  "to_json_Pool p = JObject (object_init [(''pool'', JString (range_Pool p))])"

definition to_json_Cfg :: "Subnet4_Cfg \<Rightarrow> json" where
  "to_json_Cfg c =
     JObject (object_init
       [(''id'', JUnsigned (id_Cfg c)),
        (''subnet'', JString (subnet c)),
        (''pools'', JArray (map to_json_Pool (pools c)))])"

text \<open>
  The loop \<^verbatim>\<open>for (const auto &pair : s.cfgs) cfg_vector.push_back (pair.second);\<close>
  goes through the map in an order that C++ leaves open. The sequence \<open>visit\<close> of the
  keys in the order of that traversal is a parameter of the model, and the entries
  pushed are those found under these keys. The theorems below hold for every \<open>visit\<close>.
\<close>

definition to_json_Subnet4 :: "u64 list \<Rightarrow> Subnet4 \<Rightarrow> json" where
  "to_json_Subnet4 visit s =
     (let cfg_vector = List.map_filter (cfgs s) visit
      in JArray (map to_json_Cfg cfg_vector))"

subsection \<open>OptionData\<close>

record OptionData_Option =
  name :: string
  data :: string
  always_send :: bool

definition Option_less :: "OptionData_Option \<Rightarrow> OptionData_Option \<Rightarrow> bool" where
  "Option_less opt rhs = (name opt < name rhs)"

record OptionData =
  options :: "OptionData_Option list"

definition OptionData_ctor :: OptionData where
  "OptionData_ctor = \<lparr>options = []\<rparr>"

definition add_option :: "OptionData \<Rightarrow> string \<Rightarrow> string \<Rightarrow> bool \<Rightarrow> OptionData" where
  "add_option od n d a =
     od\<lparr>options := set_insert Option_less \<lparr>name = n, data = d, always_send = a\<rparr> (options od)\<rparr>"

definition add_option_always :: "OptionData \<Rightarrow> string \<Rightarrow> string \<Rightarrow> OptionData" where
  "add_option_always od n d = add_option od n d True"

definition OptionData_empty :: "OptionData \<Rightarrow> bool" where
  "OptionData_empty od = (options od = [])"

definition to_json_Option :: "OptionData_Option \<Rightarrow> json" where
  "to_json_Option opt =
     JObject (object_init
       [(''name'', JString (name opt)),
        (''data'', JString (data opt)),
        (''always-send'', JBool (always_send opt))])"

definition to_json_OptionData :: "OptionData \<Rightarrow> json" where
  "to_json_OptionData od = JArray (map to_json_Option (options od))"

subsection \<open>Dhcp4\<close>

record Dhcp4 =
  valid_lifetime :: u64
  interface_config :: InterfacesConfig
  lease_database :: LeaseDatabase
  subnet4 :: Subnet4
  option_data :: OptionData

text \<open>
  The constructor of the header; the second component is what it writes to
  \<^verbatim>\<open>std::cerr\<close>. The constructor of the standalone program builds the same object
  and writes nothing.
\<close>

definition Dhcp4_ctor :: "u64 \<Rightarrow> string list \<Rightarrow> string \<Rightarrow> bool \<Rightarrow> string \<Rightarrow> Dhcp4 \<times> string list" where
  "Dhcp4_ctor lifetime interfaces_init_list lease_type lease_persist lease_name =
     (let d = \<lparr>valid_lifetime = lifetime,
               interface_config = \<lparr>interfaces = interfaces_init_list\<rparr>,
               lease_database = LeaseDatabase_ctor lease_type lease_persist lease_name,
               subnet4 = Subnet4_ctor,
               option_data = OptionData_ctor\<rparr>
      in if InterfacesConfig_empty (interface_config d)
         then (d, [''[Warning] Dhcp4 created with empty interfaces-config.''])
         else (d, []))"

definition Dhcp4_ctor_standalone :: "u64 \<Rightarrow> string list \<Rightarrow> string \<Rightarrow> bool \<Rightarrow> string \<Rightarrow> Dhcp4" where
  "Dhcp4_ctor_standalone lifetime interfaces_init_list lease_type lease_persist lease_name =
     \<lparr>valid_lifetime = lifetime,
      interface_config = \<lparr>interfaces = interfaces_init_list\<rparr>,
      lease_database = LeaseDatabase_ctor lease_type lease_persist lease_name,
      subnet4 = Subnet4_ctor,
      option_data = OptionData_ctor\<rparr>"

text \<open>The default constructor of the header.\<close>

definition Dhcp4_default :: Dhcp4 where
  "Dhcp4_default =
     \<lparr>valid_lifetime = 0,
      interface_config = \<lparr>interfaces = []\<rparr>,
      lease_database = LeaseDatabase_default,
      subnet4 = Subnet4_ctor,
      option_data = OptionData_ctor\<rparr>"

text \<open>
  \<^verbatim>\<open>to_json (nlohmann::json &j, const Dhcp4 &d)\<close> of the library. The result is the
  document and the lines written to \<^verbatim>\<open>std::cerr\<close>. Each \<^verbatim>\<open>return\<close> of the source
  is a branch that hands back the fields set so far.
\<close>

definition to_json_Dhcp4 :: "u64 list \<Rightarrow> Dhcp4 \<Rightarrow> json \<times> string list" where
  "to_json_Dhcp4 visit d =
     (let j = object_init [(''valid-lifetime'', JUnsigned (valid_lifetime d))] in
      if InterfacesConfig_empty (interface_config d)
      then (JObject j, [''interfaces-config is empty during JSON serialization''])
      else
        let j = object_assign ''interfaces-config''
                  (to_json_InterfacesConfig (interface_config d)) j in
        if LeaseDatabase_empty (lease_database d)
        then (JObject j, [''lease database is empty during JSON serialization''])
        else
          let j = object_assign ''lease-database''
                    (to_json_LeaseDatabase (lease_database d)) j in
          if Subnet4_empty (subnet4 d)
          then (JObject j, [''subnet4 is empty during JSON serialization''])
          else
            let j = object_assign ''subnet4'' (to_json_Subnet4 visit (subnet4 d)) j in
            if \<not> OptionData_empty (option_data d)
            then (JObject (object_assign ''option-data''
                             (to_json_OptionData (option_data d)) j), [])
            else (JObject j, []))"

text \<open>
  The same function in the standalone program: other diagnostics, the older test of
  the lease database, and a fourth \<^verbatim>\<open>return\<close> when there are no options.
\<close>

definition to_json_Dhcp4_standalone :: "u64 list \<Rightarrow> Dhcp4 \<Rightarrow> json \<times> string list" where
  "to_json_Dhcp4_standalone visit d =
     (let j = object_init [(''valid-lifetime'', JUnsigned (valid_lifetime d))] in
      if InterfacesConfig_empty (interface_config d)
      then (JObject j, [''interfaces-config is empty''])
      else
        let j = object_assign ''interfaces-config''
                  (to_json_InterfacesConfig (interface_config d)) j in
        if LeaseDatabase_empty_standalone (lease_database d)
        then (JObject j, [''lease database is empty''])
        else
          let j = object_assign ''lease-database''
                    (to_json_LeaseDatabase (lease_database d)) j in
          if Subnet4_empty (subnet4 d)
          then (JObject j, [''subnet4 is empty''])
          else
            let j = object_assign ''subnet4'' (to_json_Subnet4 visit (subnet4 d)) j in
            if OptionData_empty (option_data d)
            then (JObject j, [''option data is empty''])
            else (JObject (object_assign ''option-data''
                             (to_json_OptionData (option_data d)) j), []))"

subsection \<open>KeaConfig\<close>

record KeaConfig =
  dhcp4 :: Dhcp4

text \<open>
  \<^verbatim>\<open>KeaConfig () : dhcp4 (4000, { "aaa", "bbb" }) {}\<close>, with the default arguments
  of the \<^verbatim>\<open>Dhcp4\<close> constructor for the lease database.
\<close>

definition KeaConfig_ctor :: "KeaConfig \<times> string list" where
  "KeaConfig_ctor =
     (let (d, err) = Dhcp4_ctor 4000 [''aaa'', ''bbb''] ''memfile'' True ''/var/lib/kea/dhcp4.leases''
      in (\<lparr>dhcp4 = d\<rparr>, err))"

definition KeaConfig_ctor_standalone :: KeaConfig where
  "KeaConfig_ctor_standalone =
     \<lparr>dhcp4 = Dhcp4_ctor_standalone 4000 [''aaa'', ''bbb''] ''memfile'' True
                ''/var/lib/kea/dhcp4.leases''\<rparr>"

definition to_json_KeaConfig :: "u64 list \<Rightarrow> KeaConfig \<Rightarrow> json \<times> string list" where
  "to_json_KeaConfig visit k =
     (let (jd, err) = to_json_Dhcp4 visit (dhcp4 k)
      in (JObject (object_init [(''Dhcp4'', jd)]), err))"

definition to_json_KeaConfig_standalone :: "u64 list \<Rightarrow> KeaConfig \<Rightarrow> json \<times> string list" where
  "to_json_KeaConfig_standalone visit k =
     (let (jd, err) = to_json_Dhcp4_standalone visit (dhcp4 k)
      in (JObject (object_init [(''Dhcp4'', jd)]), err))"

subsection \<open>Sequences of calls\<close>

text \<open>
  \<open>add_configs\<close> calls \<open>add_config\<close> once for each subnet of a list, in order, and
  collects the identifiers returned.
\<close>

fun add_configs :: "Subnet4 \<Rightarrow> string list \<Rightarrow> u64 list \<times> Subnet4" where
  "add_configs s [] = ([], s)"
| "add_configs s (sn # sns) =
     (let (i, s) = add_config s sn;
          (ids, s) = add_configs s sns
      in (i # ids, s))"

text \<open>
  A caller's use of a \<open>Subnet4\<close>: any sequence of calls of its two operations.
  \<open>run_calls\<close> returns the identifiers that \<open>add_config\<close> returned, and the object
  at the end.
\<close>

datatype Subnet4_call =
    Add_config string
  | Add_pool_for_cfg u64 string string

fun run_calls :: "Subnet4 \<Rightarrow> Subnet4_call list \<Rightarrow> u64 list \<times> Subnet4" where
  "run_calls s [] = ([], s)"
| "run_calls s (Add_config sn # calls) =
     (let (i, s) = add_config s sn;
          (ids, s) = run_calls s calls
      in (i # ids, s))"
| "run_calls s (Add_pool_for_cfg k low high # calls) =
     (let (ok, s) = add_pool_for_cfg s k low high
      in run_calls s calls)"

text \<open>\<open>add_options\<close> adds the options of a list, in order.\<close>

fun add_options :: "OptionData \<Rightarrow> OptionData_Option list \<Rightarrow> OptionData" where
  "add_options od [] = od"
| "add_options od (opt # opts) =
     add_options (add_option od (name opt) (data opt) (always_send opt)) opts"

text \<open>The pools stored under an identifier (none when the identifier is unknown).\<close>

definition pools_of :: "Subnet4 \<Rightarrow> u64 \<Rightarrow> Subnet4_Pool list" where
  "pools_of s k = (case cfgs s k of None \<Rightarrow> [] | Some c \<Rightarrow> pools c)"

section \<open>Properties\<close>

subsection \<open>The two copies of the operations agree\<close>

lemma add_config_standalone_eq: "add_config_standalone s sn = add_config s sn"
  by (simp add: add_config_standalone_def add_config_def Let_def)

lemma add_pool_for_cfg_standalone_eq:
  "add_pool_for_cfg_standalone s k low high = add_pool_for_cfg s k low high"
  by (simp add: add_pool_for_cfg_standalone_def add_pool_for_cfg_def Let_def
      split: option.splits)

lemma LeaseDatabase_empty_standalone_eq:
  "LeaseDatabase_empty_standalone l = LeaseDatabase_empty l"
  by (simp add: LeaseDatabase_empty_standalone_def LeaseDatabase_empty_def)

subsection \<open>Ordered sets\<close>

text \<open>
  Both comparisons of the program compare one string field, so the lemmas are stated
  for a comparison \<open>\<lambda>a b. f a < f b\<close> by a key \<open>f\<close>.
\<close>

lemma Pool_less_key: "Pool_less = (\<lambda>a b. range_Pool a < range_Pool b)"
  by (intro ext) (simp add: Pool_less_def)

lemma Option_less_key: "Option_less = (\<lambda>a b. name a < name b)"
  by (intro ext) (simp add: Option_less_def)

lemma set_insert_keys:
  "f ` set (set_insert (\<lambda>a b. f a < f b) x xs) = insert (f x) (f ` set xs)"
  for f :: "'a \<Rightarrow> 'k::linorder"
  by (induction xs) auto

lemma set_insert_subset: "set (set_insert lt x xs) \<subseteq> insert x (set xs)"
  by (induction xs) auto

lemma set_insert_keeps: "set xs \<subseteq> set (set_insert lt x xs)"
  by (induction xs) auto

lemma set_insert_new:
  "f x \<notin> f ` set xs \<Longrightarrow> set (set_insert (\<lambda>a b. f a < f b) x xs) = insert x (set xs)"
  for f :: "'a \<Rightarrow> 'k::linorder"
  by (induction xs) auto

text \<open>Insertion keeps the list strictly ordered: the invariant of \<^verbatim>\<open>std::set\<close>.\<close>

lemma set_insert_sorted:
  "sorted_wrt (\<lambda>a b. f a < f b) xs \<Longrightarrow>
   sorted_wrt (\<lambda>a b. f a < f b) (set_insert (\<lambda>a b. f a < f b) x xs)"
  for f :: "'a \<Rightarrow> 'k::linorder"
proof (induction xs)
  case Nil
  show ?case by simp
next
  case (Cons y ys)
  have sub: "set (set_insert (\<lambda>a b. f a < f b) x ys) \<subseteq> insert x (set ys)"
    by (rule set_insert_subset)
  from Cons show ?case using sub by (auto dest: less_trans)
qed

text \<open>An element whose key is already in the set is not inserted.\<close>

lemma set_insert_present:
  "sorted_wrt (\<lambda>a b. f a < f b) xs \<Longrightarrow> y \<in> set xs \<Longrightarrow> f y = f x \<Longrightarrow>
   set_insert (\<lambda>a b. f a < f b) x xs = xs"
  for f :: "'a \<Rightarrow> 'k::linorder"
proof (induction xs)
  case Nil
  then show ?case by simp
next
  case (Cons h t)
  then show ?case by (auto dest: less_asym)
qed

lemma set_insert_idem:
  "set_insert (\<lambda>a b. f a < f b) x (set_insert (\<lambda>a b. f a < f b) x xs)
     = set_insert (\<lambda>a b. f a < f b) x xs"
  for f :: "'a \<Rightarrow> 'k::linorder"
  by (induction xs) auto

lemma sorted_wrt_key_distinct:
  "sorted_wrt (\<lambda>a b. f a < f b) xs \<Longrightarrow> distinct (map f xs)"
  for f :: "'a \<Rightarrow> 'k::linorder"
  by (simp add: sorted_wrt_map [symmetric] strict_sorted_iff)

text \<open>A set is determined by its elements: two ordered lists of the same elements are equal.\<close>

lemma sorted_wrt_key_unique:
  fixes f :: "'a \<Rightarrow> 'k::linorder"
  assumes "sorted_wrt (\<lambda>a b. f a < f b) xs" "sorted_wrt (\<lambda>a b. f a < f b) ys"
    and "set xs = set ys" and "inj_on f (set xs)"
  shows "xs = ys"
proof -
  have "sorted_wrt (<) (map f xs)" "sorted_wrt (<) (map f ys)"
    using assms(1,2) by (simp_all add: sorted_wrt_map)
  moreover have "set (map f xs) = set (map f ys)" using assms(3) by simp
  ultimately have "map f xs = map f ys" by (metis strict_sorted_equal)
  moreover have "inj_on f (set xs \<union> set ys)" using assms(3,4) by simp
  ultimately show ?thesis by (simp add: inj_on_map_eq_map)
qed

lemma count_list_distinct: "distinct xs \<Longrightarrow> x \<in> set xs \<Longrightarrow> count_list xs x = 1"
  by (induction xs) auto

lemma Pool_eq_iff: "(p :: Subnet4_Pool) = q \<longleftrightarrow> range_Pool p = range_Pool q"
  by (auto intro: Subnet4_Pool.equality)

lemma set_insert_Pool_set: "set (set_insert Pool_less p ps) = insert p (set ps)"
proof
  show "set (set_insert Pool_less p ps) \<subseteq> insert p (set ps)"
    by (rule set_insert_subset)
  have "range_Pool p \<in> range_Pool ` set (set_insert Pool_less p ps)"
    by (simp add: Pool_less_key set_insert_keys)
  then obtain q where "q \<in> set (set_insert Pool_less p ps)" "range_Pool p = range_Pool q"
    by auto
  then have "p \<in> set (set_insert Pool_less p ps)"
    by (metis Pool_eq_iff)
  then show "insert p (set ps) \<subseteq> set (set_insert Pool_less p ps)"
    using set_insert_keeps [of ps Pool_less p] by simp
qed

lemma set_insert_Pool_sorted:
  "sorted_wrt Pool_less ps \<Longrightarrow> sorted_wrt Pool_less (set_insert Pool_less p ps)"
  unfolding Pool_less_key by (rule set_insert_sorted)

lemma sorted_Pool_distinct: "sorted_wrt Pool_less ps \<Longrightarrow> distinct ps"
  unfolding Pool_less_key by (drule sorted_wrt_key_distinct) (simp add: distinct_map)

lemma set_insert_Pool_idem:
  "set_insert Pool_less p (set_insert Pool_less p ps) = set_insert Pool_less p ps"
  unfolding Pool_less_key by (rule set_insert_idem)

subsection \<open>Identifiers handed out by \<open>add_config\<close>\<close>

lemma max_id_Subnet4_ctor: "max_id Subnet4_ctor = 1"
  by (simp add: Subnet4_ctor_def)

lemma add_config_fst: "fst (add_config s sn) = max_id s"
  by (simp add: add_config_def Let_def)

lemma add_config_max_id: "max_id (snd (add_config s sn)) = max_id s + 1"
  by (simp add: add_config_def Let_def)

lemma add_config_cfgs:
  "cfgs (snd (add_config s sn)) =
     (cfgs s)(max_id s \<mapsto> \<lparr>id_Cfg = max_id s, subnet = sn, pools = []\<rparr>)"
  by (simp add: add_config_def Let_def)

text \<open>The call number \<open>i\<close> (counted from 0) returns the counter's start plus \<open>i\<close>, modulo \<open>2 ^ 64\<close>.\<close>

lemma add_configs_ids:
  "fst (add_configs s sns) = map (\<lambda>i. max_id s + of_nat i) [0..<length sns]"
proof (induction sns arbitrary: s)
  case Nil
  show ?case by simp
next
  case (Cons sn sns)
  have "map (\<lambda>i. max_id s + of_nat i) [0..<length (sn # sns)]
      = max_id s # map (\<lambda>i. max_id s + 1 + of_nat i) [0..<length sns]"
    by (simp add: upt_conv_Cons map_Suc_upt [symmetric] add.assoc del: upt_Suc)
  then show ?case
    using Cons.IH [of "snd (add_config s sn)"]
    by (simp add: split_beta Let_def add_config_fst add_config_max_id)
qed

lemma length_add_configs: "length (fst (add_configs s sns)) = length sns"
  by (simp add: add_configs_ids)

lemma add_configs_other:
  "\<forall>i<length sns. k \<noteq> max_id s + of_nat i \<Longrightarrow>
   cfgs (snd (add_configs s sns)) k = cfgs s k"
proof (induction sns arbitrary: s)
  case Nil
  show ?case by simp
next
  case (Cons sn sns)
  from Cons.prems have k0: "k \<noteq> max_id s" by force
  have "\<forall>i<length sns. k \<noteq> max_id (snd (add_config s sn)) + of_nat i"
  proof (intro allI impI)
    fix i assume "i < length sns"
    then have "Suc i < length (sn # sns)" by simp
    with Cons.prems have "k \<noteq> max_id s + of_nat (Suc i)" by blast
    then show "k \<noteq> max_id (snd (add_config s sn)) + of_nat i"
      by (simp add: add_config_max_id add.assoc)
  qed
  then have "cfgs (snd (add_configs (snd (add_config s sn)) sns)) k
      = cfgs (snd (add_config s sn)) k"
    by (rule Cons.IH)
  then show ?case using k0
    by (simp add: split_beta Let_def add_config_cfgs)
qed

lemma unat_of_nat_u64: "n < 2 ^ 64 \<Longrightarrow> unat (of_nat n :: u64) = n"
  by (simp add: unat_of_nat)

lemma of_nat_u64_neq_0:
  assumes "0 < n" "n < 2 ^ 64"
  shows "(of_nat n :: u64) \<noteq> 0"
proof
  assume "(of_nat n :: u64) = 0"
  then have "unat (of_nat n :: u64) = 0" by simp
  with assms show False by (simp add: unat_of_nat_u64)
qed

text \<open>As long as the counter has not gone round, no later call overwrites an entry.\<close>

lemma add_configs_entry:
  "i < length sns \<Longrightarrow> length sns \<le> 2 ^ 64 \<Longrightarrow>
   cfgs (snd (add_configs s sns)) (max_id s + of_nat i) =
     Some \<lparr>id_Cfg = max_id s + of_nat i, subnet = sns ! i, pools = []\<rparr>"
proof (induction sns arbitrary: s i)
  case Nil
  then show ?case by simp
next
  case (Cons sn sns)
  let ?s1 = "snd (add_config s sn)"
  show ?case
  proof (cases i)
    case 0
    have "\<forall>j<length sns. max_id s \<noteq> max_id ?s1 + of_nat j"
    proof (intro allI impI)
      fix j assume j: "j < length sns"
      with Cons.prems have "0 < Suc j" "Suc j < 2 ^ 64" by simp_all
      then have "(of_nat (Suc j) :: u64) \<noteq> 0" by (rule of_nat_u64_neq_0)
      then show "max_id s \<noteq> max_id ?s1 + of_nat j"
        by (simp add: add_config_max_id add.assoc)
    qed
    then have "cfgs (snd (add_configs ?s1 sns)) (max_id s) = cfgs ?s1 (max_id s)"
      by (rule add_configs_other)
    then show ?thesis using 0
      by (simp add: split_beta Let_def add_config_cfgs)
  next
    case (Suc i')
    with Cons.prems have "i' < length sns" "length sns \<le> 2 ^ 64" by simp_all
    then have "cfgs (snd (add_configs ?s1 sns)) (max_id ?s1 + of_nat i') =
       Some \<lparr>id_Cfg = max_id ?s1 + of_nat i', subnet = sns ! i', pools = []\<rparr>"
      by (rule Cons.IH)
    then show ?thesis using Suc
      by (simp add: split_beta Let_def add_config_max_id add.assoc)
  qed
qed

lemma add_configs_dom:
  "dom (cfgs (snd (add_configs s sns))) = dom (cfgs s) \<union> set (fst (add_configs s sns))"
proof (induction sns arbitrary: s)
  case Nil
  show ?case by simp
next
  case (Cons sn sns)
  have d: "dom (cfgs (snd (add_config s sn))) = insert (max_id s) (dom (cfgs s))"
    by (simp add: add_config_def Let_def)
  show ?case
    using Cons.IH [of "snd (add_config s sn)"]
    by (simp add: split_beta Let_def d add_config_fst)
qed

lemma add_configs_ids_unat:
  assumes "length sns < 2 ^ 64"
  shows "map unat (fst (add_configs Subnet4_ctor sns)) = [1..<Suc (length sns)]"
proof -
  have ids: "fst (add_configs Subnet4_ctor sns) = map (\<lambda>i. 1 + of_nat i) [0..<length sns]"
    by (simp add: add_configs_ids max_id_Subnet4_ctor)
  have "map unat (map (\<lambda>i. 1 + of_nat i :: u64) [0..<length sns]) = map Suc [0..<length sns]"
  proof (rule map_ext [THEN trans [OF map_map]], rule impI)
    fix i assume "i \<in> set [0..<length sns]"
    with assms have "Suc i < 2 ^ 64" by simp
    then have "unat (of_nat (Suc i) :: u64) = Suc i" by (rule unat_of_nat_u64)
    then show "(unat \<circ> (\<lambda>i. 1 + of_nat i :: u64)) i = Suc i" by simp
  qed
  then show ?thesis
    by (simp add: ids map_Suc_upt del: upt_Suc)
qed

lemma add_configs_ids_distinct:
  assumes "length sns < 2 ^ 64"
  shows "distinct (fst (add_configs Subnet4_ctor sns))"
proof -
  have "distinct (map unat (fst (add_configs Subnet4_ctor sns)))"
    by (simp only: add_configs_ids_unat [OF assms] distinct_upt)
  then show ?thesis by (simp add: distinct_map)
qed

text \<open>
  Every call adds an entry to the map and nothing removes one: after \<open>n\<close> calls the
  map holds \<open>n\<close> entries.
\<close>

lemma add_configs_entries:
  assumes "length sns < 2 ^ 64"
  shows "card (dom (cfgs (snd (add_configs Subnet4_ctor sns)))) = length sns"
proof -
  have "card (set (fst (add_configs Subnet4_ctor sns))) = length sns"
    using add_configs_ids_distinct [OF assms]
    by (simp add: distinct_card length_add_configs)
  then show ?thesis
    by (simp add: add_configs_dom Subnet4_ctor_def)
qed

text \<open>
  Claim C2: for every sequence of calls of \<open>add_config\<close> on a fresh \<open>Subnet4\<close>, the
  identifiers returned are exactly 1, 2, 3, ... in call order, none of them twice, and
  the object then holds one entry for each call, under the identifier returned: that
  identifier, the subnet given, and no pools. \<open>add_config\<close> is a total function with
  no error result.

  The sequences are those of fewer than \<open>2 ^ 64\<close> calls. Every call leaves one more
  entry alive in \<^verbatim>\<open>cfgs\<close> and no operation removes an entry, so a longer sequence
  would need \<open>2 ^ 64\<close> entries in memory at once, more than 64-bit addresses reach;
  the counter, a \<^verbatim>\<open>uint64_t\<close>, does not go round within such a sequence.
\<close>

theorem add_configs_identifiers:
  assumes "length sns < 2 ^ 64"
  shows "map unat (fst (add_configs Subnet4_ctor sns)) = [1..<Suc (length sns)]
    \<and> distinct (fst (add_configs Subnet4_ctor sns))
    \<and> card (dom (cfgs (snd (add_configs Subnet4_ctor sns)))) = length sns
    \<and> (\<forall>i<length sns.
          cfgs (snd (add_configs Subnet4_ctor sns)) (fst (add_configs Subnet4_ctor sns) ! i) =
            Some \<lparr>id_Cfg = fst (add_configs Subnet4_ctor sns) ! i,
                  subnet = sns ! i, pools = []\<rparr>)"
proof (intro conjI)
  show "map unat (fst (add_configs Subnet4_ctor sns)) = [1..<Suc (length sns)]"
    using assms by (rule add_configs_ids_unat)
  show "distinct (fst (add_configs Subnet4_ctor sns))"
    using assms by (rule add_configs_ids_distinct)
  show "card (dom (cfgs (snd (add_configs Subnet4_ctor sns)))) = length sns"
    using assms by (rule add_configs_entries)
  have ids: "fst (add_configs Subnet4_ctor sns) = map (\<lambda>i. 1 + of_nat i) [0..<length sns]"
    by (simp add: add_configs_ids max_id_Subnet4_ctor)
  show "\<forall>i<length sns.
          cfgs (snd (add_configs Subnet4_ctor sns)) (fst (add_configs Subnet4_ctor sns) ! i) =
            Some \<lparr>id_Cfg = fst (add_configs Subnet4_ctor sns) ! i,
                  subnet = sns ! i, pools = []\<rparr>"
  proof (intro allI impI)
    fix i assume i: "i < length sns"
    from i assms
    have "cfgs (snd (add_configs Subnet4_ctor sns)) (max_id Subnet4_ctor + of_nat i) =
       Some \<lparr>id_Cfg = max_id Subnet4_ctor + of_nat i, subnet = sns ! i, pools = []\<rparr>"
      by (intro add_configs_entry) simp_all
    then show "cfgs (snd (add_configs Subnet4_ctor sns)) (fst (add_configs Subnet4_ctor sns) ! i) =
            Some \<lparr>id_Cfg = fst (add_configs Subnet4_ctor sns) ! i,
                  subnet = sns ! i, pools = []\<rparr>"
      using i by (simp add: ids max_id_Subnet4_ctor)
  qed
qed

text \<open>Claim C2 at two calls, the subnets of the repository's test.\<close>

theorem add_configs_identifiers_witness:
  "length [''192.168.1.0/24'', ''10.0.0.0/8''] < 2 ^ 64
   \<and> map unat (fst (add_configs Subnet4_ctor [''192.168.1.0/24'', ''10.0.0.0/8''])) = [1, 2]
   \<and> cfgs (snd (add_configs Subnet4_ctor [''192.168.1.0/24'', ''10.0.0.0/8''])) 1
        = Some \<lparr>id_Cfg = 1, subnet = ''192.168.1.0/24'', pools = []\<rparr>
   \<and> cfgs (snd (add_configs Subnet4_ctor [''192.168.1.0/24'', ''10.0.0.0/8''])) 2
        = Some \<lparr>id_Cfg = 2, subnet = ''10.0.0.0/8'', pools = []\<rparr>"
proof -
  have h: "length [''192.168.1.0/24'', ''10.0.0.0/8''] < 2 ^ 64" by simp
  show ?thesis
    using h add_configs_identifiers [OF h]
    by (simp add: add_config_def Subnet4_ctor_def Let_def)
qed

subsection \<open>Pools of a subnet\<close>

lemma add_pool_for_cfg_unknown:
  "cfgs s k = None \<Longrightarrow> add_pool_for_cfg s k low high = (False, s)"
  by (simp add: add_pool_for_cfg_def)

lemma add_pool_for_cfg_known:
  "cfgs s k = Some c \<Longrightarrow>
   add_pool_for_cfg s k low high =
     (True, s\<lparr>cfgs := (cfgs s)(k \<mapsto>
        c\<lparr>pools := set_insert Pool_less \<lparr>range_Pool = low @ '' - '' @ high\<rparr> (pools c)\<rparr>)\<rparr>)"
  by (simp add: add_pool_for_cfg_def Let_def)

lemma add_pool_for_cfg_dom:
  "dom (cfgs (snd (add_pool_for_cfg s k low high))) = dom (cfgs s)"
  by (auto simp: add_pool_for_cfg_def Let_def split: option.splits)

lemma add_config_dom:
  "dom (cfgs (snd (add_config s sn))) = insert (fst (add_config s sn)) (dom (cfgs s))"
  by (simp add: add_config_def Let_def)

text \<open>
  The identifiers stored in the object are those it started with and those that
  \<open>add_config\<close> has returned since.
\<close>

lemma run_calls_dom:
  "dom (cfgs (snd (run_calls s calls))) = dom (cfgs s) \<union> set (fst (run_calls s calls))"
proof (induction calls arbitrary: s)
  case Nil
  show ?case by simp
next
  case (Cons c calls)
  show ?case
  proof (cases c)
    case (Add_config sn)
    then show ?thesis
      using Cons.IH [of "snd (add_config s sn)"]
      by (simp add: split_beta Let_def add_config_dom)
  next
    case (Add_pool_for_cfg k low high)
    then show ?thesis
      using Cons.IH [of "snd (add_pool_for_cfg s k low high)"]
      by (simp add: split_beta Let_def add_pool_for_cfg_dom)
  qed
qed

text \<open>
  Every pool list that the operations build is strictly ordered, as the elements of a
  \<^verbatim>\<open>std::set\<close> are.
\<close>

lemma run_calls_pools_sorted:
  "(\<And>k c. cfgs s k = Some c \<Longrightarrow> sorted_wrt Pool_less (pools c)) \<Longrightarrow>
   cfgs (snd (run_calls s calls)) k = Some c \<Longrightarrow> sorted_wrt Pool_less (pools c)"
proof (induction calls arbitrary: s k c)
  case Nil
  then show ?case by simp
next
  case (Cons call calls)
  show ?case
  proof (cases call)
    case (Add_config sn)
    have "sorted_wrt Pool_less (pools c')" if "cfgs (snd (add_config s sn)) k' = Some c'" for k' c'
      using that Cons.prems(1) [of k' c']
      by (auto simp: add_config_cfgs split: if_splits)
    moreover have "cfgs (snd (run_calls (snd (add_config s sn)) calls)) k = Some c"
      using Cons.prems(2) Add_config by (simp add: split_beta Let_def)
    ultimately show ?thesis by (rule Cons.IH)
  next
    case (Add_pool_for_cfg k0 low high)
    have "sorted_wrt Pool_less (pools c')"
      if "cfgs (snd (add_pool_for_cfg s k0 low high)) k' = Some c'" for k' c'
    proof (cases "cfgs s k0")
      case None
      with that Cons.prems(1) [of k' c'] show ?thesis
        by (simp add: add_pool_for_cfg_unknown)
    next
      case (Some c0)
      with that Cons.prems(1) [of k' c'] Cons.prems(1) [of k0 c0] show ?thesis
        by (auto simp: add_pool_for_cfg_known set_insert_Pool_sorted split: if_splits)
    qed
    moreover have "cfgs (snd (run_calls (snd (add_pool_for_cfg s k0 low high)) calls)) k = Some c"
      using Cons.prems(2) Add_pool_for_cfg by (simp add: split_beta Let_def)
    ultimately show ?thesis by (rule Cons.IH)
  qed
qed

text \<open>
  Claim C3: take a fresh \<open>Subnet4\<close> after any sequence of calls of its operations.
  For every identifier that none of the \<open>add_config\<close> calls returned,
  \<open>add_pool_for_cfg\<close> returns \<open>false\<close> and hands back the object as it was: the same
  entries, the same pools, the same counter. (Its result type is the only one among
  the operations with a failure value: \<open>add_config\<close> returns an identifier, and
  \<open>add_option\<close> returns nothing.)
\<close>

theorem add_pool_for_cfg_unknown_identifier:
  assumes "k \<notin> set (fst (run_calls Subnet4_ctor calls))"
  shows "add_pool_for_cfg (snd (run_calls Subnet4_ctor calls)) k low high
           = (False, snd (run_calls Subnet4_ctor calls))"
proof -
  have "dom (cfgs (snd (run_calls Subnet4_ctor calls)))
      = set (fst (run_calls Subnet4_ctor calls))"
    by (simp add: run_calls_dom Subnet4_ctor_def)
  with assms have "cfgs (snd (run_calls Subnet4_ctor calls)) k = None"
    by blast
  then show ?thesis by (rule add_pool_for_cfg_unknown)
qed

text \<open>Claim C3 on the repository's test: identifier 999 after two subnets and a pool.\<close>

theorem add_pool_for_cfg_unknown_identifier_witness:
  "999 \<notin> set (fst (run_calls Subnet4_ctor
      [Add_config ''192.168.1.0/24'', Add_config ''10.0.0.0/8'',
       Add_pool_for_cfg 1 ''192.168.1.100'' ''192.168.1.200'']))
   \<and> add_pool_for_cfg (snd (run_calls Subnet4_ctor
        [Add_config ''192.168.1.0/24'', Add_config ''10.0.0.0/8'',
         Add_pool_for_cfg 1 ''192.168.1.100'' ''192.168.1.200'']))
        999 ''1.1.1.1'' ''1.1.1.1''
      = (False, snd (run_calls Subnet4_ctor
          [Add_config ''192.168.1.0/24'', Add_config ''10.0.0.0/8'',
           Add_pool_for_cfg 1 ''192.168.1.100'' ''192.168.1.200'']))"
proof -
  have h: "999 \<notin> set (fst (run_calls Subnet4_ctor
      [Add_config ''192.168.1.0/24'', Add_config ''10.0.0.0/8'',
       Add_pool_for_cfg 1 ''192.168.1.100'' ''192.168.1.200'']))"
    by (simp add: Subnet4_ctor_def add_config_def add_pool_for_cfg_def Let_def)
  show ?thesis
    using h add_pool_for_cfg_unknown_identifier [OF h] by simp
qed

text \<open>
  Claim C4: for an identifier \<open>k\<close> that is stored (with a pool set \<open>pools c\<close>, ordered
  as every \<^verbatim>\<open>std::set\<close> is) and all strings \<open>low\<close> and \<open>high\<close>,
  \<open>add_pool_for_cfg\<close> returns \<open>true\<close> and adds the pool whose range is
  \<open>low @ '' - '' @ high\<close> to the pools of \<open>k\<close>; a second call with the same
  arguments returns \<open>true\<close> again and changes nothing; the pool is in the set once
  after either call, and when the subnet had no pools it is the set's only element.
\<close>

theorem add_pool_for_cfg_stores_once:
  assumes "cfgs s k = Some c" and "sorted_wrt Pool_less (pools c)"
  shows "(let pool = \<lparr>range_Pool = low @ '' - '' @ high\<rparr>;
              r1 = add_pool_for_cfg s k low high;
              r2 = add_pool_for_cfg (snd r1) k low high
          in fst r1 \<and> fst r2 \<and> snd r2 = snd r1
             \<and> set (pools_of (snd r1) k) = insert pool (set (pools c))
             \<and> count_list (pools_of (snd r1) k) pool = 1
             \<and> count_list (pools_of (snd r2) k) pool = 1
             \<and> (pools c = [] \<longrightarrow> pools_of (snd r2) k = [pool]))"
proof -
  let ?pool = "\<lparr>range_Pool = low @ '' - '' @ high\<rparr>"
  let ?ps = "set_insert Pool_less ?pool (pools c)"
  let ?s1 = "s\<lparr>cfgs := (cfgs s)(k \<mapsto> c\<lparr>pools := ?ps\<rparr>)\<rparr>"
  have r1: "add_pool_for_cfg s k low high = (True, ?s1)"
    using assms(1) by (rule add_pool_for_cfg_known)
  have "cfgs ?s1 k = Some (c\<lparr>pools := ?ps\<rparr>)" by simp
  then have "add_pool_for_cfg ?s1 k low high =
      (True, ?s1\<lparr>cfgs := (cfgs ?s1)(k \<mapsto>
         (c\<lparr>pools := ?ps\<rparr>)\<lparr>pools :=
            set_insert Pool_less ?pool (pools (c\<lparr>pools := ?ps\<rparr>))\<rparr>)\<rparr>)"
    by (rule add_pool_for_cfg_known)
  then have r2: "add_pool_for_cfg ?s1 k low high = (True, ?s1)"
    by (simp add: set_insert_Pool_idem)
  have po: "pools_of ?s1 k = ?ps" by (simp add: pools_of_def)
  have "distinct ?ps"
    using assms(2) by (intro sorted_Pool_distinct set_insert_Pool_sorted)
  moreover have "?pool \<in> set ?ps" by (simp add: set_insert_Pool_set)
  ultimately have cnt: "count_list ?ps ?pool = 1" by (simp add: count_list_distinct)
  have emp: "pools c = [] \<Longrightarrow> ?ps = [?pool]" by simp
  show ?thesis
    unfolding Let_def r1 r2 snd_conv fst_conv po
    using cnt emp by (simp add: set_insert_Pool_set)
qed

text \<open>
  Claim C4 on a subnet just added: the same pool twice, and the subnet holds one pool,
  \<open>''192.168.1.100 - 192.168.1.200''\<close>.
\<close>

theorem add_pool_for_cfg_stores_once_witness:
  "cfgs (snd (add_config Subnet4_ctor ''192.168.1.0/24'')) 1
     = Some \<lparr>id_Cfg = 1, subnet = ''192.168.1.0/24'', pools = []\<rparr>
   \<and> sorted_wrt Pool_less (pools \<lparr>id_Cfg = 1, subnet = ''192.168.1.0/24'', pools = []\<rparr>)
   \<and> fst (add_pool_for_cfg (snd (add_config Subnet4_ctor ''192.168.1.0/24'')) 1
            ''192.168.1.100'' ''192.168.1.200'')
   \<and> fst (add_pool_for_cfg
            (snd (add_pool_for_cfg (snd (add_config Subnet4_ctor ''192.168.1.0/24'')) 1
                    ''192.168.1.100'' ''192.168.1.200''))
            1 ''192.168.1.100'' ''192.168.1.200'')
   \<and> pools_of
        (snd (add_pool_for_cfg
               (snd (add_pool_for_cfg (snd (add_config Subnet4_ctor ''192.168.1.0/24'')) 1
                       ''192.168.1.100'' ''192.168.1.200''))
               1 ''192.168.1.100'' ''192.168.1.200'')) 1
       = [\<lparr>range_Pool = ''192.168.1.100 - 192.168.1.200''\<rparr>]"
proof -
  have h1: "cfgs (snd (add_config Subnet4_ctor ''192.168.1.0/24'')) 1
     = Some \<lparr>id_Cfg = 1, subnet = ''192.168.1.0/24'', pools = []\<rparr>"
    by (simp add: add_config_def Subnet4_ctor_def Let_def)
  have h2: "sorted_wrt Pool_less
     (pools \<lparr>id_Cfg = 1, subnet = ''192.168.1.0/24'', pools = []\<rparr>)"
    by simp
  show ?thesis
    using h1 h2
      add_pool_for_cfg_stores_once [OF h1 h2, of "''192.168.1.100''" "''192.168.1.200''"]
    by (simp add: Let_def add_config_def add_pool_for_cfg_def pools_of_def Subnet4_ctor_def
        Pool_less_def)
qed

text \<open>
  Claim C10: a call of \<open>add_pool_for_cfg\<close> with a stored identifier \<open>k\<close> returns
  \<open>true\<close> and leaves the counter, every entry under another identifier, and the
  identifier and subnet string of the entry under \<open>k\<close> as they were; only the pools
  of that entry can differ.
\<close>

theorem add_pool_for_cfg_frame:
  assumes "cfgs s k = Some c"
  shows "(let r = add_pool_for_cfg s k low high
          in fst r
             \<and> max_id (snd r) = max_id s
             \<and> (\<forall>k'. k' \<noteq> k \<longrightarrow> cfgs (snd r) k' = cfgs s k')
             \<and> (\<exists>c'. cfgs (snd r) k = Some c' \<and> id_Cfg c' = id_Cfg c \<and> subnet c' = subnet c))"
  by (simp add: add_pool_for_cfg_known [OF assms] Let_def)

text \<open>
  Claim C10 with two subnets: a pool added to subnet 1 leaves the counter at 3 and
  subnet 2 as it was, and subnet 1 keeps its identifier and its subnet string.
\<close>

theorem add_pool_for_cfg_frame_witness:
  "cfgs (snd (add_configs Subnet4_ctor [''192.168.1.0/24'', ''10.0.0.0/8''])) 1
     = Some \<lparr>id_Cfg = 1, subnet = ''192.168.1.0/24'', pools = []\<rparr>
   \<and> fst (add_pool_for_cfg (snd (add_configs Subnet4_ctor [''192.168.1.0/24'', ''10.0.0.0/8'']))
            1 ''192.168.1.100'' ''192.168.1.200'')
   \<and> max_id (snd (add_pool_for_cfg
                 (snd (add_configs Subnet4_ctor [''192.168.1.0/24'', ''10.0.0.0/8'']))
                 1 ''192.168.1.100'' ''192.168.1.200'')) = 3
   \<and> cfgs (snd (add_pool_for_cfg
                 (snd (add_configs Subnet4_ctor [''192.168.1.0/24'', ''10.0.0.0/8'']))
                 1 ''192.168.1.100'' ''192.168.1.200'')) 2
       = Some \<lparr>id_Cfg = 2, subnet = ''10.0.0.0/8'', pools = []\<rparr>
   \<and> cfgs (snd (add_pool_for_cfg
                 (snd (add_configs Subnet4_ctor [''192.168.1.0/24'', ''10.0.0.0/8'']))
                 1 ''192.168.1.100'' ''192.168.1.200'')) 1
       = Some \<lparr>id_Cfg = 1, subnet = ''192.168.1.0/24'',
               pools = [\<lparr>range_Pool = ''192.168.1.100 - 192.168.1.200''\<rparr>]\<rparr>"
proof -
  have h: "cfgs (snd (add_configs Subnet4_ctor [''192.168.1.0/24'', ''10.0.0.0/8''])) 1
     = Some \<lparr>id_Cfg = 1, subnet = ''192.168.1.0/24'', pools = []\<rparr>"
    by (simp add: add_config_def Subnet4_ctor_def Let_def)
  show ?thesis
    using h add_pool_for_cfg_frame [OF h, of "''192.168.1.100''" "''192.168.1.200''"]
    by (simp add: Let_def add_config_def add_pool_for_cfg_def Subnet4_ctor_def)
qed

subsection \<open>Options\<close>

lemma add_option_sorted:
  "sorted_wrt Option_less (options od) \<Longrightarrow>
   sorted_wrt Option_less (options (add_option od n d a))"
  unfolding Option_less_key add_option_def by (simp add: set_insert_sorted)

lemma add_options_sorted:
  "sorted_wrt Option_less (options od) \<Longrightarrow>
   sorted_wrt Option_less (options (add_options od opts))"
  by (induction opts arbitrary: od) (simp_all add: add_option_sorted)

text \<open>The options of any \<open>OptionData\<close> built by the operations are ordered by name.\<close>

lemma add_options_ctor_sorted:
  "sorted_wrt Option_less (options (add_options OptionData_ctor opts))"
  by (rule add_options_sorted) (simp add: OptionData_ctor_def)

lemma add_option_present:
  assumes "sorted_wrt Option_less (options od)" "opt \<in> set (options od)" "name opt = n"
  shows "add_option od n d a = od"
proof -
  have "name opt = name \<lparr>name = n, data = d, always_send = a\<rparr>"
    using assms(3) by simp
  with assms(1,2)
  have "set_insert (\<lambda>a b. name a < name b) \<lparr>name = n, data = d, always_send = a\<rparr> (options od)
      = options od"
    unfolding Option_less_key by (rule set_insert_present)
  then show ?thesis by (simp add: add_option_def Option_less_key)
qed

text \<open>
  Claim C5: when an \<open>OptionData\<close> (its options ordered by name, as the elements of
  every \<^verbatim>\<open>std::set\<close> are) holds an option \<open>opt\<close> named \<open>n\<close>, the calls
  \<open>add_option od n d a\<close> and \<open>add_option_always od n d\<close> hand back the object as it
  was: the same options in the same number, \<open>opt\<close> among them with its data and its
  flag. \<open>add_option_always od n d\<close> is \<open>add_option od n d True\<close>.
\<close>

theorem add_option_first_write_wins:
  assumes "sorted_wrt Option_less (options od)" and "opt \<in> set (options od)"
    and "name opt = n"
  shows "add_option od n d a = od
         \<and> add_option_always od n d = od
         \<and> add_option_always od n d = add_option od n d True
         \<and> length (options (add_option od n d a)) = length (options od)
         \<and> opt \<in> set (options (add_option od n d a))"
  using assms(2) add_option_present [OF assms] by (simp add: add_option_always_def)

text \<open>
  Claim C5 on the repository's test: \<open>routers\<close> is added a second time, with other
  data and the flag set, and the first entry stays.
\<close>

theorem add_option_first_write_wins_witness:
  "sorted_wrt Option_less
     (options (add_option_always (add_option OptionData_ctor ''routers'' ''192.168.1.1'' False)
        ''domain-name-servers'' ''8.8.8.8, 1.1.1.1''))
   \<and> \<lparr>name = ''routers'', data = ''192.168.1.1'', always_send = False\<rparr>
       \<in> set (options (add_option_always
             (add_option OptionData_ctor ''routers'' ''192.168.1.1'' False)
             ''domain-name-servers'' ''8.8.8.8, 1.1.1.1''))
   \<and> name \<lparr>name = ''routers'', data = ''192.168.1.1'', always_send = False\<rparr> = ''routers''
   \<and> options (add_option
        (add_option_always (add_option OptionData_ctor ''routers'' ''192.168.1.1'' False)
           ''domain-name-servers'' ''8.8.8.8, 1.1.1.1'')
        ''routers'' ''192.168.2.1'' True)
       = [\<lparr>name = ''domain-name-servers'', data = ''8.8.8.8, 1.1.1.1'', always_send = True\<rparr>,
          \<lparr>name = ''routers'', data = ''192.168.1.1'', always_send = False\<rparr>]"
proof -
  let ?od = "add_option_always (add_option OptionData_ctor ''routers'' ''192.168.1.1'' False)
        ''domain-name-servers'' ''8.8.8.8, 1.1.1.1''"
  have od: "options ?od =
     [\<lparr>name = ''domain-name-servers'', data = ''8.8.8.8, 1.1.1.1'', always_send = True\<rparr>,
      \<lparr>name = ''routers'', data = ''192.168.1.1'', always_send = False\<rparr>]"
    by (simp add: add_option_always_def add_option_def OptionData_ctor_def Option_less_def)
  have h1: "sorted_wrt Option_less (options ?od)"
    by (simp add: od Option_less_def)
  have h2: "\<lparr>name = ''routers'', data = ''192.168.1.1'', always_send = False\<rparr>
      \<in> set (options ?od)"
    by (simp add: od)
  have h3: "name \<lparr>name = ''routers'', data = ''192.168.1.1'', always_send = False\<rparr> = ''routers''"
    by simp
  show ?thesis
    using h1 h2 h3 od
      add_option_first_write_wins [OF h1 h2 h3, of "''192.168.2.1''" True]
    by simp
qed

lemma Option_surj: "\<lparr>name = name opt, data = data opt, always_send = always_send opt\<rparr> = opt"
  for opt :: OptionData_Option
  by simp

lemma add_options_set:
  "distinct (map name opts) \<Longrightarrow> name ` set opts \<inter> name ` set (options od) = {} \<Longrightarrow>
   set (options (add_options od opts)) = set (options od) \<union> set opts"
proof (induction opts arbitrary: od)
  case Nil
  show ?case by simp
next
  case (Cons opt opts)
  let ?od1 = "add_option od (name opt) (data opt) (always_send opt)"
  from Cons.prems have new: "name opt \<notin> name ` set (options od)" by auto
  then have s1: "set (options ?od1) = insert opt (set (options od))"
    by (simp add: add_option_def Option_less_key set_insert_new Option_surj)
  from Cons.prems have "distinct (map name opts)"
    and "name ` set opts \<inter> name ` set (options ?od1) = {}"
    by (auto simp: s1)
  then have "set (options (add_options ?od1 opts)) = set (options ?od1) \<union> set opts"
    by (rule Cons.IH)
  then show ?case by (simp add: s1)
qed

lemma add_options_ctor_set:
  "distinct (map name opts) \<Longrightarrow> set (options (add_options OptionData_ctor opts)) = set opts"
  by (simp add: add_options_set OptionData_ctor_def)

text \<open>Options with different names, added in two orders, give the same set.\<close>

lemma add_options_perm:
  assumes d: "distinct (map name opts)" and p: "mset opts' = mset opts"
  shows "options (add_options OptionData_ctor opts') = options (add_options OptionData_ctor opts)"
proof -
  from p have "mset (map name opts') = mset (map name opts)" by simp
  with d have d': "distinct (map name opts')" by (metis mset_eq_imp_distinct_iff)
  from p have "set opts' = set opts" by (rule mset_eq_setD)
  then have "set (options (add_options OptionData_ctor opts')) =
      set (options (add_options OptionData_ctor opts))"
    by (simp add: add_options_ctor_set d d')
  moreover have "inj_on name (set (options (add_options OptionData_ctor opts')))"
    using d' by (simp add: add_options_ctor_set distinct_map)
  ultimately show ?thesis
    using add_options_ctor_sorted [of opts'] add_options_ctor_sorted [of opts]
    unfolding Option_less_key by (intro sorted_wrt_key_unique)
qed

text \<open>
  Claim C6: the array that serializes an \<open>OptionData\<close> lists its options, and for
  options added in any order to a fresh \<open>OptionData\<close> these stand in strictly
  ascending order of their names (the order of \<^verbatim>\<open>std::string\<close>: lexicographic on the
  bytes). Hence, when the names of \<open>opts\<close> are pairwise distinct and \<open>opts'\<close> is a
  permutation of \<open>opts\<close>, adding \<open>opts'\<close> gives the same array as adding \<open>opts\<close>.
\<close>

theorem to_json_OptionData_order:
  "sorted_wrt (<) (map name (options (add_options OptionData_ctor opts)))
   \<and> to_json_OptionData (add_options OptionData_ctor opts) =
       JArray (map to_json_Option (options (add_options OptionData_ctor opts)))
   \<and> (distinct (map name opts) \<and> mset opts' = mset opts \<longrightarrow>
        to_json_OptionData (add_options OptionData_ctor opts') =
          to_json_OptionData (add_options OptionData_ctor opts))"
proof -
  have "sorted_wrt (<) (map name (options (add_options OptionData_ctor opts)))"
    using add_options_ctor_sorted [of opts] by (simp add: Option_less_key sorted_wrt_map)
  moreover have "to_json_OptionData (add_options OptionData_ctor opts') =
          to_json_OptionData (add_options OptionData_ctor opts)"
    if "distinct (map name opts)" "mset opts' = mset opts"
    using add_options_perm [OF that] by (simp only: to_json_OptionData_def)
  ultimately show ?thesis
    by (simp add: to_json_OptionData_def)
qed

text \<open>
  Claim C6 on the three options of the repository's test, added in two orders: both
  give the array ordered \<open>domain-name\<close>, \<open>domain-name-servers\<close>, \<open>routers\<close>.
\<close>

theorem to_json_OptionData_order_witness:
  "distinct (map name
     [\<lparr>name = ''routers'', data = ''192.168.1.1'', always_send = False\<rparr>,
      \<lparr>name = ''domain-name-servers'', data = ''8.8.8.8, 1.1.1.1'', always_send = True\<rparr>,
      \<lparr>name = ''domain-name'', data = ''example.com'', always_send = True\<rparr>])
   \<and> mset
     [\<lparr>name = ''domain-name'', data = ''example.com'', always_send = True\<rparr>,
      \<lparr>name = ''routers'', data = ''192.168.1.1'', always_send = False\<rparr>,
      \<lparr>name = ''domain-name-servers'', data = ''8.8.8.8, 1.1.1.1'', always_send = True\<rparr>]
     = mset
     [\<lparr>name = ''routers'', data = ''192.168.1.1'', always_send = False\<rparr>,
      \<lparr>name = ''domain-name-servers'', data = ''8.8.8.8, 1.1.1.1'', always_send = True\<rparr>,
      \<lparr>name = ''domain-name'', data = ''example.com'', always_send = True\<rparr>]
   \<and> to_json_OptionData (add_options OptionData_ctor
     [\<lparr>name = ''domain-name'', data = ''example.com'', always_send = True\<rparr>,
      \<lparr>name = ''routers'', data = ''192.168.1.1'', always_send = False\<rparr>,
      \<lparr>name = ''domain-name-servers'', data = ''8.8.8.8, 1.1.1.1'', always_send = True\<rparr>])
     = to_json_OptionData (add_options OptionData_ctor
     [\<lparr>name = ''routers'', data = ''192.168.1.1'', always_send = False\<rparr>,
      \<lparr>name = ''domain-name-servers'', data = ''8.8.8.8, 1.1.1.1'', always_send = True\<rparr>,
      \<lparr>name = ''domain-name'', data = ''example.com'', always_send = True\<rparr>])
   \<and> to_json_OptionData (add_options OptionData_ctor
     [\<lparr>name = ''routers'', data = ''192.168.1.1'', always_send = False\<rparr>,
      \<lparr>name = ''domain-name-servers'', data = ''8.8.8.8, 1.1.1.1'', always_send = True\<rparr>,
      \<lparr>name = ''domain-name'', data = ''example.com'', always_send = True\<rparr>])
     = JArray
        [JObject [(''always-send'', JBool True), (''data'', JString ''example.com''),
                  (''name'', JString ''domain-name'')],
         JObject [(''always-send'', JBool True), (''data'', JString ''8.8.8.8, 1.1.1.1''),
                  (''name'', JString ''domain-name-servers'')],
         JObject [(''always-send'', JBool False), (''data'', JString ''192.168.1.1''),
                  (''name'', JString ''routers'')]]"
proof -
  let ?r = "\<lparr>name = ''routers'', data = ''192.168.1.1'', always_send = False\<rparr>"
  let ?s = "\<lparr>name = ''domain-name-servers'', data = ''8.8.8.8, 1.1.1.1'', always_send = True\<rparr>"
  let ?n = "\<lparr>name = ''domain-name'', data = ''example.com'', always_send = True\<rparr>"
  have h1: "distinct (map name [?r, ?s, ?n])" by simp
  have h2: "mset [?n, ?r, ?s] = mset [?r, ?s, ?n]" by simp
  have e: "to_json_OptionData (add_options OptionData_ctor [?r, ?s, ?n])
     = JArray
        [JObject [(''always-send'', JBool True), (''data'', JString ''example.com''),
                  (''name'', JString ''domain-name'')],
         JObject [(''always-send'', JBool True), (''data'', JString ''8.8.8.8, 1.1.1.1''),
                  (''name'', JString ''domain-name-servers'')],
         JObject [(''always-send'', JBool False), (''data'', JString ''192.168.1.1''),
                  (''name'', JString ''routers'')]]"
    by (simp add: to_json_OptionData_def to_json_Option_def object_init_def add_option_def
        OptionData_ctor_def Option_less_def)
  from to_json_OptionData_order [of "[?r, ?s, ?n]" "[?n, ?r, ?s]"] h1 h2
  have "to_json_OptionData (add_options OptionData_ctor [?n, ?r, ?s])
      = to_json_OptionData (add_options OptionData_ctor [?r, ?s, ?n])"
    by blast
  with h1 h2 e show ?thesis by (simp only: simp_thms)
qed

subsection \<open>Serialization of \<open>Dhcp4\<close> and \<open>KeaConfig\<close>\<close>

lemmas to_json_Dhcp4_defs =
  to_json_Dhcp4_def to_json_Dhcp4_standalone_def object_init_def
  InterfacesConfig_empty_def LeaseDatabase_empty_def LeaseDatabase_empty_standalone_def
  Subnet4_empty_def OptionData_empty_def Let_def

text \<open>
  Claim C1: for every \<open>Dhcp4\<close> value the document of \<open>to_json_Dhcp4\<close> is an object
  with the field \<open>valid-lifetime\<close>. Its fields are \<open>valid-lifetime\<close> alone when
  there are no interfaces; else \<open>interfaces-config\<close> and \<open>valid-lifetime\<close> alone when
  the type or the name of the lease database is the empty string; else these and
  \<open>lease-database\<close> alone when there is no subnet entry; else these and \<open>subnet4\<close>
  (and \<open>option-data\<close>, when there are options). An object holds its fields in the
  order of their names. The standalone program's function gives the same fields.
\<close>

theorem to_json_Dhcp4_gated:
  "''valid-lifetime'' \<in> set (json_keys (fst (to_json_Dhcp4 visit d)))
   \<and> json_keys (fst (to_json_Dhcp4 visit d)) =
      (if interfaces (interface_config d) = [] then [''valid-lifetime'']
       else if type (lease_database d) = '''' \<or> LeaseDatabase.name (lease_database d) = ''''
         then [''interfaces-config'', ''valid-lifetime'']
       else if dom (cfgs (subnet4 d)) = {}
         then [''interfaces-config'', ''lease-database'', ''valid-lifetime'']
       else if options (option_data d) = []
         then [''interfaces-config'', ''lease-database'', ''subnet4'', ''valid-lifetime'']
       else [''interfaces-config'', ''lease-database'', ''option-data'', ''subnet4'',
             ''valid-lifetime''])
   \<and> json_keys (fst (to_json_Dhcp4_standalone visit d))
       = json_keys (fst (to_json_Dhcp4 visit d))"
  by (simp add: to_json_Dhcp4_defs)

text \<open>
  Claim C1 on scenario D of the specification: interfaces, and a lease database with
  an empty name. The document holds \<open>interfaces-config\<close> and \<open>valid-lifetime\<close> only,
  though a subnet and an option were added.
\<close>

theorem to_json_Dhcp4_gated_witness:
  "fst (to_json_Dhcp4 [1]
     \<lparr>valid_lifetime = 7200,
      interface_config = \<lparr>interfaces = [''enp0s1'']\<rparr>,
      lease_database = LeaseDatabase_ctor ''memfile'' True '''',
      subnet4 = snd (add_config Subnet4_ctor ''192.168.50.0/24''),
      option_data = add_option OptionData_ctor ''routers'' ''192.168.50.1'' False\<rparr>)
   = JObject
       [(''interfaces-config'', JObject [(''interfaces'', JArray [JString ''enp0s1''])]),
        (''valid-lifetime'', JUnsigned 7200)]
   \<and> json_keys (fst (to_json_Dhcp4 [1]
     \<lparr>valid_lifetime = 7200,
      interface_config = \<lparr>interfaces = [''enp0s1'']\<rparr>,
      lease_database = LeaseDatabase_ctor ''memfile'' True '''',
      subnet4 = snd (add_config Subnet4_ctor ''192.168.50.0/24''),
      option_data = add_option OptionData_ctor ''routers'' ''192.168.50.1'' False\<rparr>))
   = [''interfaces-config'', ''valid-lifetime'']"
  using to_json_Dhcp4_gated [of "[1]"
     "\<lparr>valid_lifetime = 7200,
      interface_config = \<lparr>interfaces = [''enp0s1'']\<rparr>,
      lease_database = LeaseDatabase_ctor ''memfile'' True '''',
      subnet4 = snd (add_config Subnet4_ctor ''192.168.50.0/24''),
      option_data = add_option OptionData_ctor ''routers'' ''192.168.50.1'' False\<rparr>"]
  by (simp add: to_json_Dhcp4_defs LeaseDatabase_ctor_def to_json_InterfacesConfig_def)

text \<open>
  Claim C7: for every \<open>Dhcp4\<close> with at least one interface, a lease database whose
  type and name are not empty, at least one subnet entry and no options, the document
  is the object of exactly the four fields \<open>interfaces-config\<close>, \<open>lease-database\<close>,
  \<open>subnet4\<close> and \<open>valid-lifetime\<close>, each with the serialized form of its part, and
  without \<open>option-data\<close>. The library's function writes no diagnostic on the way;
  the standalone program's function returns the same document.
\<close>

theorem to_json_Dhcp4_no_options:
  assumes "interfaces (interface_config d) \<noteq> []"
    and "type (lease_database d) \<noteq> ''''"
    and "LeaseDatabase.name (lease_database d) \<noteq> ''''"
    and "dom (cfgs (subnet4 d)) \<noteq> {}"
    and "options (option_data d) = []"
  shows "fst (to_json_Dhcp4 visit d) =
           JObject
             [(''interfaces-config'', to_json_InterfacesConfig (interface_config d)),
              (''lease-database'', to_json_LeaseDatabase (lease_database d)),
              (''subnet4'', to_json_Subnet4 visit (subnet4 d)),
              (''valid-lifetime'', JUnsigned (valid_lifetime d))]
         \<and> json_keys (fst (to_json_Dhcp4 visit d)) =
             [''interfaces-config'', ''lease-database'', ''subnet4'', ''valid-lifetime'']
         \<and> ''option-data'' \<notin> set (json_keys (fst (to_json_Dhcp4 visit d)))
         \<and> snd (to_json_Dhcp4 visit d) = []
         \<and> fst (to_json_Dhcp4_standalone visit d) = fst (to_json_Dhcp4 visit d)"
  using assms by (simp add: to_json_Dhcp4_defs)

text \<open>
  Claim C7 on the repository's test of a configuration without options (scenario C):
  the document of the test, field by field.
\<close>

theorem to_json_Dhcp4_no_options_witness:
  "interfaces (interface_config
      ((fst (Dhcp4_ctor 3000 [''ethX''] ''memfile'' False ''leases.db''))
         \<lparr>subnet4 := snd (add_pool_for_cfg (snd (add_config Subnet4_ctor ''10.0.1.0/24''))
                            1 ''10.0.1.100'' ''10.0.1.150'')\<rparr>)) \<noteq> []
   \<and> type (lease_database
      ((fst (Dhcp4_ctor 3000 [''ethX''] ''memfile'' False ''leases.db''))
         \<lparr>subnet4 := snd (add_pool_for_cfg (snd (add_config Subnet4_ctor ''10.0.1.0/24''))
                            1 ''10.0.1.100'' ''10.0.1.150'')\<rparr>)) \<noteq> ''''
   \<and> LeaseDatabase.name (lease_database
      ((fst (Dhcp4_ctor 3000 [''ethX''] ''memfile'' False ''leases.db''))
         \<lparr>subnet4 := snd (add_pool_for_cfg (snd (add_config Subnet4_ctor ''10.0.1.0/24''))
                            1 ''10.0.1.100'' ''10.0.1.150'')\<rparr>)) \<noteq> ''''
   \<and> dom (cfgs (subnet4
      ((fst (Dhcp4_ctor 3000 [''ethX''] ''memfile'' False ''leases.db''))
         \<lparr>subnet4 := snd (add_pool_for_cfg (snd (add_config Subnet4_ctor ''10.0.1.0/24''))
                            1 ''10.0.1.100'' ''10.0.1.150'')\<rparr>))) \<noteq> {}
   \<and> options (option_data
      ((fst (Dhcp4_ctor 3000 [''ethX''] ''memfile'' False ''leases.db''))
         \<lparr>subnet4 := snd (add_pool_for_cfg (snd (add_config Subnet4_ctor ''10.0.1.0/24''))
                            1 ''10.0.1.100'' ''10.0.1.150'')\<rparr>)) = []
   \<and> fst (to_json_Dhcp4 [1]
      ((fst (Dhcp4_ctor 3000 [''ethX''] ''memfile'' False ''leases.db''))
         \<lparr>subnet4 := snd (add_pool_for_cfg (snd (add_config Subnet4_ctor ''10.0.1.0/24''))
                            1 ''10.0.1.100'' ''10.0.1.150'')\<rparr>))
     = JObject
         [(''interfaces-config'', JObject [(''interfaces'', JArray [JString ''ethX''])]),
          (''lease-database'',
             JObject [(''name'', JString ''leases.db''), (''persist'', JBool False),
                      (''type'', JString ''memfile'')]),
          (''subnet4'',
             JArray
               [JObject
                  [(''id'', JUnsigned 1),
                   (''pools'', JArray [JObject [(''pool'', JString ''10.0.1.100 - 10.0.1.150'')]]),
                   (''subnet'', JString ''10.0.1.0/24'')]]),
          (''valid-lifetime'', JUnsigned 3000)]"
proof -
  let ?d = "(fst (Dhcp4_ctor 3000 [''ethX''] ''memfile'' False ''leases.db''))
         \<lparr>subnet4 := snd (add_pool_for_cfg (snd (add_config Subnet4_ctor ''10.0.1.0/24''))
                            1 ''10.0.1.100'' ''10.0.1.150'')\<rparr>"
  have s4: "snd (add_pool_for_cfg (snd (add_config Subnet4_ctor ''10.0.1.0/24''))
                 1 ''10.0.1.100'' ''10.0.1.150'') =
      \<lparr>max_id = 2,
       cfgs = [1 \<mapsto> \<lparr>id_Cfg = 1, subnet = ''10.0.1.0/24'',
                       pools = [\<lparr>range_Pool = ''10.0.1.100 - 10.0.1.150''\<rparr>]\<rparr>]\<rparr>"
    by (simp add: add_config_def add_pool_for_cfg_def Subnet4_ctor_def Let_def)
  have h1: "interfaces (interface_config ?d) \<noteq> []"
    by (simp add: Dhcp4_ctor_def Let_def)
  have h2: "type (lease_database ?d) \<noteq> ''''"
    by (simp add: Dhcp4_ctor_def LeaseDatabase_ctor_def Let_def)
  have h3: "LeaseDatabase.name (lease_database ?d) \<noteq> ''''"
    by (simp add: Dhcp4_ctor_def LeaseDatabase_ctor_def Let_def)
  have h4: "dom (cfgs (subnet4 ?d)) \<noteq> {}"
    by (simp add: s4)
  have h5: "options (option_data ?d) = []"
    by (simp add: Dhcp4_ctor_def OptionData_ctor_def Let_def)
  have parts:
    "to_json_InterfacesConfig (interface_config ?d)
       = JObject [(''interfaces'', JArray [JString ''ethX''])]"
    "to_json_LeaseDatabase (lease_database ?d)
       = JObject [(''name'', JString ''leases.db''), (''persist'', JBool False),
                  (''type'', JString ''memfile'')]"
    "to_json_Subnet4 [1] (subnet4 ?d)
       = JArray
           [JObject
              [(''id'', JUnsigned 1),
               (''pools'', JArray [JObject [(''pool'', JString ''10.0.1.100 - 10.0.1.150'')]]),
               (''subnet'', JString ''10.0.1.0/24'')]]"
    "valid_lifetime ?d = 3000"
    by (simp_all add: s4 Dhcp4_ctor_def LeaseDatabase_ctor_def Let_def
        to_json_InterfacesConfig_def to_json_LeaseDatabase_def to_json_Subnet4_def
        to_json_Cfg_def to_json_Pool_def object_init_def map_filter_simps)
  from to_json_Dhcp4_no_options [OF h1 h2 h3 h4 h5, of "[1]"]
  have "fst (to_json_Dhcp4 [1] ?d) =
           JObject
             [(''interfaces-config'', to_json_InterfacesConfig (interface_config ?d)),
              (''lease-database'', to_json_LeaseDatabase (lease_database ?d)),
              (''subnet4'', to_json_Subnet4 [1] (subnet4 ?d)),
              (''valid-lifetime'', JUnsigned (valid_lifetime ?d))]"
    by (rule conjunct1)
  then have "fst (to_json_Dhcp4 [1] ?d) = JObject
         [(''interfaces-config'', JObject [(''interfaces'', JArray [JString ''ethX''])]),
          (''lease-database'',
             JObject [(''name'', JString ''leases.db''), (''persist'', JBool False),
                      (''type'', JString ''memfile'')]),
          (''subnet4'',
             JArray
               [JObject
                  [(''id'', JUnsigned 1),
                   (''pools'', JArray [JObject [(''pool'', JString ''10.0.1.100 - 10.0.1.150'')]]),
                   (''subnet'', JString ''10.0.1.0/24'')]]),
          (''valid-lifetime'', JUnsigned 3000)]"
    by (simp only: parts)
  with h1 h2 h3 h4 h5 show ?thesis by (intro conjI)
qed

text \<open>
  Claim C8: every \<open>KeaConfig\<close> serializes to the object whose only field is \<open>Dhcp4\<close>,
  holding the document of its \<open>Dhcp4\<close> block; and the \<open>KeaConfig\<close> built by the
  constructor without arguments holds a \<open>Dhcp4\<close> with lifetime 4000, the interfaces
  \<open>aaa\<close> and \<open>bbb\<close>, and the lease database of type \<open>memfile\<close>, persistent, named
  \<open>/var/lib/kea/dhcp4.leases\<close>. Both hold in the standalone program as well.
\<close>

theorem to_json_KeaConfig_root:
  "fst (to_json_KeaConfig visit k) = JObject [(''Dhcp4'', fst (to_json_Dhcp4 visit (dhcp4 k)))]
   \<and> json_keys (fst (to_json_KeaConfig visit k)) = [''Dhcp4'']
   \<and> fst (to_json_KeaConfig_standalone visit k) =
       JObject [(''Dhcp4'', fst (to_json_Dhcp4_standalone visit (dhcp4 k)))]
   \<and> valid_lifetime (dhcp4 (fst KeaConfig_ctor)) = 4000
   \<and> interfaces (interface_config (dhcp4 (fst KeaConfig_ctor))) = [''aaa'', ''bbb'']
   \<and> type (lease_database (dhcp4 (fst KeaConfig_ctor))) = ''memfile''
   \<and> persist (lease_database (dhcp4 (fst KeaConfig_ctor))) = True
   \<and> LeaseDatabase.name (lease_database (dhcp4 (fst KeaConfig_ctor)))
       = ''/var/lib/kea/dhcp4.leases''
   \<and> KeaConfig_ctor_standalone = fst KeaConfig_ctor"
  by (simp add: to_json_KeaConfig_def to_json_KeaConfig_standalone_def object_init_def
      split_beta KeaConfig_ctor_def KeaConfig_ctor_standalone_def Dhcp4_ctor_def
      Dhcp4_ctor_standalone_def LeaseDatabase_ctor_def InterfacesConfig_empty_def Let_def)

text \<open>
  Claim C9: for every \<open>Dhcp4\<close> value (and every order in which the subnet map is
  traversed) the function of the standalone program and the function of the library
  return the same document. Where there are no options the first returns early and
  the second skips the field; the documents are the same.
\<close>

theorem to_json_Dhcp4_standalone_same_document:
  "fst (to_json_Dhcp4_standalone visit d) = fst (to_json_Dhcp4 visit d)"
  by (simp add: to_json_Dhcp4_defs)

text \<open>
  The two functions differ in what they write to \<^verbatim>\<open>std::cerr\<close>: with everything but
  options in place, the standalone program reports the missing options and the
  library reports nothing.
\<close>

lemma to_json_Dhcp4_diagnostics:
  assumes "interfaces (interface_config d) \<noteq> []"
    and "\<not> LeaseDatabase_empty (lease_database d)"
    and "dom (cfgs (subnet4 d)) \<noteq> {}"
    and "options (option_data d) = []"
  shows "snd (to_json_Dhcp4_standalone visit d) = [''option data is empty'']"
    and "snd (to_json_Dhcp4 visit d) = []"
  using assms by (simp_all add: to_json_Dhcp4_defs)

subsection \<open>The repository's tests, replayed\<close>

text \<open>
  The model gives the documents that the repository's tests expect. The traversal of
  the subnet map is taken in the order of the identifiers.
\<close>

lemma test_Subnet4_Management:
  "run_calls Subnet4_ctor
     [Add_config ''192.168.1.0/24'', Add_config ''10.0.0.0/8'',
      Add_pool_for_cfg 1 ''192.168.1.100'' ''192.168.1.200'',
      Add_pool_for_cfg 1 ''192.168.1.50'' ''192.168.1.60'']
   = ([1, 2],
      \<lparr>max_id = 3,
       cfgs = [1 \<mapsto> \<lparr>id_Cfg = 1, subnet = ''192.168.1.0/24'',
                       pools = [\<lparr>range_Pool = ''192.168.1.100 - 192.168.1.200''\<rparr>,
                                \<lparr>range_Pool = ''192.168.1.50 - 192.168.1.60''\<rparr>]\<rparr>,
               2 \<mapsto> \<lparr>id_Cfg = 2, subnet = ''10.0.0.0/8'', pools = []\<rparr>]\<rparr>)"
  by (simp add: Subnet4_ctor_def add_config_def add_pool_for_cfg_def Pool_less_def Let_def
      fun_upd_twist)

lemma test_Dhcp4_default:
  "to_json_Dhcp4 visit Dhcp4_default =
     (JObject [(''valid-lifetime'', JUnsigned 0)],
      [''interfaces-config is empty during JSON serialization''])"
  by (simp add: to_json_Dhcp4_defs Dhcp4_default_def)

lemma test_Dhcp4_Serialization_HappyPath:
  "fst (to_json_Dhcp4 [1]
     ((fst (Dhcp4_ctor 7200 [''enp0s1''] ''memfile'' True ''kea-leases4.csv''))
        \<lparr>subnet4 := snd (add_pool_for_cfg (snd (add_config Subnet4_ctor ''192.168.50.0/24''))
                           1 ''192.168.50.10'' ''192.168.50.20''),
         option_data := add_option
           (add_option_always OptionData_ctor ''domain-name-servers'' ''192.168.50.1, 8.8.8.8'')
           ''routers'' ''192.168.50.1'' False\<rparr>))
   = JObject
       [(''interfaces-config'', JObject [(''interfaces'', JArray [JString ''enp0s1''])]),
        (''lease-database'',
           JObject [(''name'', JString ''kea-leases4.csv''), (''persist'', JBool True),
                    (''type'', JString ''memfile'')]),
        (''option-data'',
           JArray
             [JObject [(''always-send'', JBool True),
                       (''data'', JString ''192.168.50.1, 8.8.8.8''),
                       (''name'', JString ''domain-name-servers'')],
              JObject [(''always-send'', JBool False), (''data'', JString ''192.168.50.1''),
                       (''name'', JString ''routers'')]]),
        (''subnet4'',
           JArray
             [JObject
                [(''id'', JUnsigned 1),
                 (''pools'',
                    JArray [JObject [(''pool'', JString ''192.168.50.10 - 192.168.50.20'')]]),
                 (''subnet'', JString ''192.168.50.0/24'')]]),
        (''valid-lifetime'', JUnsigned 7200)]"
  by (simp add: to_json_Dhcp4_defs Dhcp4_ctor_def LeaseDatabase_ctor_def Subnet4_ctor_def
      OptionData_ctor_def add_config_def add_pool_for_cfg_def add_option_always_def
      add_option_def Option_less_def to_json_InterfacesConfig_def to_json_LeaseDatabase_def
      to_json_Subnet4_def to_json_Cfg_def to_json_Pool_def to_json_OptionData_def
      to_json_Option_def map_filter_simps)

end
